theory Spec2Isabelle
  imports Complex_Main "HOL-Library.Sublist"
begin

section \<open>The venue library: constants and data\<close>

text \<open>
  The gateway talks to the terminal through the \<open>MetaTrader5\<close> package. Its integer
  constants are the package's documented values. Python floats (prices, volumes,
  delays) are modelled as exact reals: comparisons and arithmetic are the mathematical
  ones, without rounding, infinities or NaN.
\<close>

named_theorems mt5_consts

definition ORDER_TYPE_BUY :: int where
  ORDER_TYPE_BUY_def [mt5_consts]: "ORDER_TYPE_BUY = 0"
definition ORDER_TYPE_SELL :: int where
  ORDER_TYPE_SELL_def [mt5_consts]: "ORDER_TYPE_SELL = 1"
definition ORDER_TYPE_BUY_LIMIT :: int where
  ORDER_TYPE_BUY_LIMIT_def [mt5_consts]: "ORDER_TYPE_BUY_LIMIT = 2"
definition ORDER_TYPE_SELL_LIMIT :: int where
  ORDER_TYPE_SELL_LIMIT_def [mt5_consts]: "ORDER_TYPE_SELL_LIMIT = 3"
definition ORDER_TYPE_BUY_STOP :: int where
  ORDER_TYPE_BUY_STOP_def [mt5_consts]: "ORDER_TYPE_BUY_STOP = 4"
definition ORDER_TYPE_SELL_STOP :: int where
  ORDER_TYPE_SELL_STOP_def [mt5_consts]: "ORDER_TYPE_SELL_STOP = 5"

definition ORDER_FILLING_FOK :: int where
  ORDER_FILLING_FOK_def [mt5_consts]: "ORDER_FILLING_FOK = 0"
definition ORDER_FILLING_IOC :: int where
  ORDER_FILLING_IOC_def [mt5_consts]: "ORDER_FILLING_IOC = 1"
definition ORDER_FILLING_RETURN :: int where
  ORDER_FILLING_RETURN_def [mt5_consts]: "ORDER_FILLING_RETURN = 2"

definition ORDER_TIME_GTC :: int where
  ORDER_TIME_GTC_def [mt5_consts]: "ORDER_TIME_GTC = 0"

definition TRADE_ACTION_DEAL :: int where
  TRADE_ACTION_DEAL_def [mt5_consts]: "TRADE_ACTION_DEAL = 1"
definition TRADE_ACTION_PENDING :: int where
  TRADE_ACTION_PENDING_def [mt5_consts]: "TRADE_ACTION_PENDING = 5"

definition TRADE_RETCODE_DONE :: int where
  TRADE_RETCODE_DONE_def [mt5_consts]: "TRADE_RETCODE_DONE = 10009"

text \<open>The fields of \<open>mt5.symbol_info\<close> and \<open>mt5.symbol_info_tick\<close> that the gateway reads.\<close>

record symbol_info =
  volume_min :: real
  volume_max :: real
  volume_step :: real
  point :: real
  trade_freeze_level :: int
  filling_mode :: int

record tick =
  bid :: real
  ask :: real

text \<open>An open position as \<open>mt5.positions_get\<close> returns it.\<close>

record position =
  pos_ticket :: int
  pos_symbol :: string
  pos_type :: int
  pos_volume :: real
  pos_magic :: int

text \<open>
  The request dictionary handed to \<open>mt5.order_send\<close>. The keys \<open>position\<close>,
  \<open>sl\<close> and \<open>tp\<close> are present only on some paths: \<open>None\<close> is an absent key.
\<close>

record trade_request =
  rq_action :: int
  rq_position :: "int option"
  rq_symbol :: string
  rq_volume :: real
  rq_type :: int
  rq_price :: real
  rq_sl :: "real option"
  rq_tp :: "real option"
  rq_deviation :: int
  rq_magic :: int
  rq_comment :: string
  rq_type_time :: int
  rq_type_filling :: int

record trade_result =
  retcode :: int
  comment :: string

text \<open>
  The terminal as the gateway sees it during one request: each library call is a
  function of its arguments. \<open>None\<close> is the library's \<open>None\<close> result.
\<close>

record mt5_env =
  symbol_select :: "string \<Rightarrow> bool"
  symbol_info :: "string \<Rightarrow> symbol_info option"
  symbol_info_tick :: "string \<Rightarrow> tick option"
  positions_get :: "int \<Rightarrow> position list option"
  last_error :: "int \<times> string"
  order_send :: "trade_request \<Rightarrow> trade_result option"

section \<open>Messages and Python arithmetic\<close>

text \<open>
  The validators' messages are f-strings over floats; a message is kept as its template
  with the interpolated values.
\<close>

datatype message =
    Text string
  | SymbolInfoUnavailable
  | VolumeBelowMinimum real real
  | VolumeExceedsMaximum real real
  | VolumeStepMismatch real
  | StopLossNotPositive
  | BuySlNotBelowEntry
  | SellSlNotAboveEntry
  | TakeProfitNotPositive
  | BuyTpNotAboveEntry
  | SellTpNotBelowEntry
  | NoCurrentPrice
  | PriceTooClose real
  | BuyLimitNotBelowAsk
  | SellLimitNotAboveBid
  | BuyStopNotAboveAsk
  | SellStopNotBelowBid
  | SymbolNotSelectable string
  | InvalidOrderType string
  | NoSymbolPrice string
  | PositionNotFound int
  | CloseVolumeNotLess real real
  | NoTick string
  | InvalidPositionType int
  | OperationFailed string string
  | NotFoundMessage string "string option"

type_synonym validation = "bool \<times> message option"

datatype py_exn = ZeroDivisionError | ValueError | TypeError

text \<open>Float division \<open>x / y\<close> raises on a zero divisor.\<close>

definition py_truediv :: "real \<Rightarrow> real \<Rightarrow> py_exn + real" where
  "py_truediv x y = (if y = 0 then Inl ZeroDivisionError else Inr (x / y))"

text \<open>Python's one-argument \<open>round\<close>: to the nearest integer, a tie to the even one.\<close>

definition py_round :: "real \<Rightarrow> int" where
  "py_round x =
     (let f = \<lfloor>x\<rfloor>; d = x - of_int f
      in if d < 1 / 2 then f
         else if 1 / 2 < d then f + 1
         else if even f then f else f + 1)"

section \<open>The order validators (lib.py)\<close>

definition validate_symbol :: "mt5_env \<Rightarrow> string \<Rightarrow> bool" where
  "validate_symbol env symbol_name = (if \<not> symbol_select env symbol_name then False else True)"

definition get_symbol_filling_mode :: "mt5_env \<Rightarrow> string \<Rightarrow> int" where
  "get_symbol_filling_mode env symbol_name =
     (case symbol_info env symbol_name of
        None \<Rightarrow> ORDER_FILLING_RETURN
      | Some si \<Rightarrow>
          if and (filling_mode si) 2 \<noteq> 0 then ORDER_FILLING_IOC
          else if and (filling_mode si) 4 \<noteq> 0 then ORDER_FILLING_RETURN
          else if and (filling_mode si) 1 \<noteq> 0 then ORDER_FILLING_FOK
          else ORDER_FILLING_RETURN)"

definition validate_volume :: "mt5_env \<Rightarrow> string \<Rightarrow> real \<Rightarrow> py_exn + validation" where
  "validate_volume env symbol vol =
     (case symbol_info env symbol of
        None \<Rightarrow> Inr (False, Some SymbolInfoUnavailable)
      | Some si \<Rightarrow>
          if vol < volume_min si then
            Inr (False, Some (VolumeBelowMinimum vol (volume_min si)))
          else if vol > volume_max si then
            Inr (False, Some (VolumeExceedsMaximum vol (volume_max si)))
          else if volume_step si > 0 then
            (case py_truediv (vol - volume_min si) (volume_step si) of
               Inl e \<Rightarrow> Inl e
             | Inr q \<Rightarrow>
                 (let steps = py_round q;
                      expected_volume = volume_min si + of_int steps * volume_step si;
                      epsilon = volume_step si * 0.01
                  in if \<bar>vol - expected_volume\<bar> > epsilon
                     then Inr (False, Some (VolumeStepMismatch (volume_step si)))
                     else Inr (True, None)))
          else Inr (True, None))"

definition validate_sl_tp :: "int \<Rightarrow> real \<Rightarrow> real option \<Rightarrow> real option \<Rightarrow> validation" where
  "validate_sl_tp order_type price sl tp =
     (let is_buy = (order_type \<in> set [ORDER_TYPE_BUY, ORDER_TYPE_BUY_LIMIT, ORDER_TYPE_BUY_STOP]);
          sl_check =
            (case sl of
               None \<Rightarrow> None
             | Some s \<Rightarrow>
                 if s \<le> 0 then Some StopLossNotPositive
                 else if is_buy \<and> s \<ge> price then Some BuySlNotBelowEntry
                 else if \<not> is_buy \<and> s \<le> price then Some SellSlNotAboveEntry
                 else None)
      in case sl_check of
           Some m \<Rightarrow> (False, Some m)
         | None \<Rightarrow>
             (case tp of
                None \<Rightarrow> (True, None)
              | Some t \<Rightarrow>
                  if t \<le> 0 then (False, Some TakeProfitNotPositive)
                  else if is_buy \<and> t \<le> price then (False, Some BuyTpNotAboveEntry)
                  else if \<not> is_buy \<and> t \<ge> price then (False, Some SellTpNotBelowEntry)
                  else (True, None)))"

text \<open>
  Modelled from the spec: \<open>constants.ORDER_TYPE_TO_STRING\<close>, the table of
  \<open>constants.py\<close> (not among the source files) that \<open>validate_pending_price\<close>
  reads. The spec's reference price is the ask for the buy-side kinds and the bid
  for the sell-side ones; the names are those of \<open>ORDER_TYPE_MAP\<close> in
  \<open>routes/order.py\<close>, read backwards.
\<close>

definition ORDER_TYPE_TO_STRING :: "(int \<times> string) list" where
  "ORDER_TYPE_TO_STRING =
     [(ORDER_TYPE_BUY, ''BUY''), (ORDER_TYPE_SELL, ''SELL''),
      (ORDER_TYPE_BUY_LIMIT, ''BUY_LIMIT''), (ORDER_TYPE_SELL_LIMIT, ''SELL_LIMIT''),
      (ORDER_TYPE_BUY_STOP, ''BUY_STOP''), (ORDER_TYPE_SELL_STOP, ''SELL_STOP'')]"

text \<open>\<open>d.get(k, default)\<close> on a dictionary kept as an association list.\<close>

definition dict_get :: "('k \<times> 'v) list \<Rightarrow> 'k \<Rightarrow> 'v \<Rightarrow> 'v" where
  "dict_get d k dflt = (case map_of d k of None \<Rightarrow> dflt | Some v \<Rightarrow> v)"

definition validate_pending_price :: "mt5_env \<Rightarrow> int \<Rightarrow> string \<Rightarrow> real \<Rightarrow> validation" where
  "validate_pending_price env order_type symbol price =
     (case symbol_info_tick env symbol of
        None \<Rightarrow> (False, Some NoCurrentPrice)
      | Some tk \<Rightarrow>
          (case symbol_info env symbol of
             None \<Rightarrow> (False, Some SymbolInfoUnavailable)
           | Some si \<Rightarrow>
               (let freeze_level = of_int (trade_freeze_level si) * point si;
                    type_str = dict_get ORDER_TYPE_TO_STRING order_type '''';
                    current_price = (if sublist ''BUY'' type_str then ask tk else bid tk)
                in if \<bar>price - current_price\<bar> < freeze_level then
                     (False, Some (PriceTooClose freeze_level))
                   else if order_type = ORDER_TYPE_BUY_LIMIT \<and> price \<ge> ask tk then
                     (False, Some BuyLimitNotBelowAsk)
                   else if order_type = ORDER_TYPE_SELL_LIMIT \<and> price \<le> bid tk then
                     (False, Some SellLimitNotAboveBid)
                   else if order_type = ORDER_TYPE_BUY_STOP \<and> price \<le> ask tk then
                     (False, Some BuyStopNotAboveAsk)
                   else if order_type = ORDER_TYPE_SELL_STOP \<and> price \<ge> bid tk then
                     (False, Some SellStopNotBelowBid)
                   else (True, None))))"

section \<open>The connection lifecycle manager (mt5_connection.py)\<close>

datatype ConnectionStatus = DISCONNECTED | CONNECTED | RECONNECTING

text \<open>The diagnostics stored in \<open>_last_error\<close>, as templates with their values.\<close>

datatype diagnostic =
    ReconnectionAttempt int int
  | InitializationFailed string int
  | InitializationException string
  | FailedAfterAttempts int
  | ConnectionLost
  | CheckFailed string

record connection =
  c_status :: ConnectionStatus
  c_last_error :: "diagnostic option"
  max_reconnect_attempts :: int
  base_delay :: real

text \<open>
  What the terminal answers while one call of the manager runs. An attempt of
  \<open>initialize\<close> is \<open>LoginOk\<close> when \<open>mt5.initialize()\<close> is true and
  \<open>mt5.account_info()\<close> is not \<open>None\<close>, \<open>LoginFailed code text\<close> when one of them
  fails and \<open>mt5.last_error()\<close> gives \<open>(code, text)\<close>, and \<open>LoginRaised text\<close>
  when a call raises. \<open>probe\<close> is the answer to the \<open>account_info\<close> call of
  \<open>ensure_connection\<close>.
\<close>

datatype login_outcome = LoginOk | LoginFailed int string | LoginRaised string

datatype probe_outcome = ProbeData | ProbeNone | ProbeRaised string

record venue =
  login :: "int \<Rightarrow> login_outcome"
  probe :: probe_outcome

text \<open>
  The effects of a call, in order: every \<open>_set_status\<close>, every \<open>time.sleep\<close>, and
  every login attempt with its number.
\<close>

datatype event = StatusSet ConnectionStatus "diagnostic option" | Slept real | LoginCall int

definition set_status :: "connection \<Rightarrow> ConnectionStatus \<Rightarrow> diagnostic option \<Rightarrow> connection" where
  "set_status c new_status err = c\<lparr>c_status := new_status, c_last_error := err\<rparr>"

definition is_connected :: "connection \<Rightarrow> bool" where
  "is_connected c = (c_status c = CONNECTED)"

definition get_status :: "connection \<Rightarrow> ConnectionStatus" where
  "get_status c = c_status c"

definition get_last_error :: "connection \<Rightarrow> diagnostic option" where
  "get_last_error c = c_last_error c"

text \<open>The head of an iteration: from the second attempt on the state is Reconnecting.\<close>

definition begin_attempt :: "connection \<Rightarrow> int \<Rightarrow> connection" where
  "begin_attempt c attempt =
     (if attempt > 1
      then set_status c RECONNECTING
             (Some (ReconnectionAttempt attempt (max_reconnect_attempts c)))
      else c)"

definition begin_events :: "connection \<Rightarrow> int \<Rightarrow> event list" where
  "begin_events c attempt =
     (if attempt > 1
      then [StatusSet RECONNECTING
              (Some (ReconnectionAttempt attempt (max_reconnect_attempts c)))]
      else [])"

text \<open>The diagnostic of a failed attempt; \<open>None\<close> for a successful one.\<close>

fun attempt_error :: "login_outcome \<Rightarrow> diagnostic option" where
  "attempt_error LoginOk = None"
| "attempt_error (LoginFailed error_code error_str) =
     Some (InitializationFailed error_str error_code)"
| "attempt_error (LoginRaised e) = Some (InitializationException e)"

text \<open>The wait at the end of a failed iteration that is not the last.\<close>

definition backoff :: "connection \<Rightarrow> int \<Rightarrow> event list" where
  "backoff c attempt =
     (if attempt < max_reconnect_attempts c
      then [Slept (base_delay c * 2 ^ nat (attempt - 1))]
      else [])"

text \<open>
  The \<open>while\<close> loop of \<open>initialize\<close>, entered with the counter \<open>attempt\<close>; the result
  is the return value, the manager afterwards and the effects.
\<close>

function initialize_loop :: "venue \<Rightarrow> int \<Rightarrow> connection \<Rightarrow> bool \<times> connection \<times> event list" where
  "initialize_loop v attempt c =
     (if attempt < max_reconnect_attempts c then
        (let k = attempt + 1; c1 = begin_attempt c k
         in case attempt_error (login v k) of
              None \<Rightarrow>
                (True, set_status c1 CONNECTED None,
                 begin_events c k @ [LoginCall k, StatusSet CONNECTED None])
            | Some error_msg \<Rightarrow>
                (let c2 = set_status c1 DISCONNECTED (Some error_msg);
                     r = initialize_loop v k c2
                 in (fst r, fst (snd r),
                     begin_events c k @ [LoginCall k, StatusSet DISCONNECTED (Some error_msg)]
                       @ backoff c2 k @ snd (snd r))))
      else
        (let final_error = FailedAfterAttempts (max_reconnect_attempts c)
         in (False, set_status c DISCONNECTED (Some final_error),
             [StatusSet DISCONNECTED (Some final_error)])))"
  by pat_completeness auto
termination
  by (relation "measure (\<lambda>(v, attempt, c). nat (max_reconnect_attempts c - attempt))")
     (auto simp: set_status_def begin_attempt_def)

definition initialize :: "venue \<Rightarrow> connection \<Rightarrow> bool \<times> connection \<times> event list" where
  "initialize v c = initialize_loop v 0 c"

definition ensure_connection :: "venue \<Rightarrow> connection \<Rightarrow> bool \<times> connection \<times> event list" where
  "ensure_connection v c =
     (if is_connected c then
        (case probe v of
           ProbeData \<Rightarrow> (True, c, [])
         | ProbeNone \<Rightarrow>
             (let c1 = set_status c DISCONNECTED (Some ConnectionLost);
                  r = initialize v c1
              in (fst r, fst (snd r), StatusSet DISCONNECTED (Some ConnectionLost) # snd (snd r)))
         | ProbeRaised e \<Rightarrow>
             (let c1 = set_status c DISCONNECTED (Some (CheckFailed e));
                  r = initialize v c1
              in (fst r, fst (snd r), StatusSet DISCONNECTED (Some (CheckFailed e)) # snd (snd r))))
      else initialize v c)"

section \<open>Error envelopes (errors.py)\<close>

text \<open>
  A JSON body is a dictionary in insertion order. A view returns a body with a status
  code; \<open>Nested r n\<close> is the tuple \<open>(r, n)\<close> of a view that returns an error helper's
  pair together with a second status code.
\<close>

datatype jvalue =
    JNone
  | JStr string
  | JInt int
  | JMsg message
  | JDiag diagnostic
  | JExn py_exn
  | JObj "(string \<times> jvalue) list"

type_synonym envelope = "(string \<times> jvalue) list"

datatype http_response = Response envelope int | Nested http_response int

text \<open>Truth of an optional string (\<open>if request_id:\<close>) and of an optional dictionary.\<close>

definition truthy_str :: "string option \<Rightarrow> bool" where
  "truthy_str x = (case x of None \<Rightarrow> False | Some s \<Rightarrow> s \<noteq> [])"

definition truthy_dict :: "envelope option \<Rightarrow> bool" where
  "truthy_dict x = (case x of None \<Rightarrow> False | Some d \<Rightarrow> d \<noteq> [])"

definition opt_str :: "string option \<Rightarrow> jvalue" where
  "opt_str x = (case x of None \<Rightarrow> JNone | Some s \<Rightarrow> JStr s)"

definition opt_msg :: "message option \<Rightarrow> jvalue" where
  "opt_msg x = (case x of None \<Rightarrow> JNone | Some m \<Rightarrow> JMsg m)"

text \<open>The two lines \<open>if request_id: response["request_id"] = request_id\<close>.\<close>

definition add_request_id :: "string option \<Rightarrow> envelope \<Rightarrow> envelope" where
  "add_request_id request_id response =
     (if truthy_str request_id then response @ [(''request_id'', opt_str request_id)]
      else response)"

definition result_asdict :: "trade_result \<Rightarrow> jvalue" where
  "result_asdict r = JObj [(''retcode'', JInt (retcode r)), (''comment'', JStr (comment r))]"

definition mt5_error_response :: "mt5_env \<Rightarrow> string option \<Rightarrow> string \<Rightarrow> trade_result \<Rightarrow> http_response" where
  "mt5_error_response env request_id operation result =
     (let error_code = fst (last_error env);
          error_str = snd (last_error env);
          is_connection_error =
            (error_code \<in> set [10004, 10005, 10006] \<or>
             retcode result \<in> set [10018, 10019, 10020]);
          status_code = (if is_connection_error then 503 else 400);
          error_type = (if is_connection_error then ''connection_error'' else ''mt5_rejected'');
          response =
            [(''error'', JMsg (OperationFailed operation (comment result))),
             (''error_type'', JStr error_type),
             (''mt5_error'',
                JObj [(''retcode'', JInt (retcode result)),
                      (''comment'', JStr (comment result)),
                      (''error_code'', JInt error_code),
                      (''error_string'', JStr error_str)])]
      in Response (add_request_id request_id response) status_code)"

definition internal_error_response :: "string option \<Rightarrow> string \<Rightarrow> py_exn \<Rightarrow> http_response" where
  "internal_error_response request_id operation exception =
     (let response =
            [(''error'', JStr ''Internal server error''),
             (''operation'', JStr operation),
             (''detail'', JExn exception)]
      in Response (add_request_id request_id response) 500)"

definition validation_error_response ::
    "string option \<Rightarrow> message option \<Rightarrow> envelope option \<Rightarrow> http_response" where
  "validation_error_response request_id msg details =
     (let response = [(''error'', opt_msg msg), (''error_type'', JStr ''validation_error'')];
          response = (if truthy_dict details
                      then response @ [(''details'', JObj (the details))] else response)
      in Response (add_request_id request_id response) 400)"


section \<open>Closing a position (lib.py, routes/position.py)\<close>

text \<open>
  \<open>close_position\<close> of lib.py. The position argument is the caller's dictionary, of
  which only the key \<open>ticket\<close> is read. \<open>price_dict[position_type]\<close> is the bid for
  type 0 and the ask for type 1; no other type reaches it.
\<close>

definition close_position ::
    "mt5_env \<Rightarrow> (string \<times> int) list \<Rightarrow> int \<Rightarrow> int \<Rightarrow> string \<Rightarrow> trade_result option" where
  "close_position env pos deviation magic cmt =
     (case map_of pos ''ticket'' of
        None \<Rightarrow> None
      | Some ticket \<Rightarrow>
          (case positions_get env ticket of
             None \<Rightarrow> None
           | Some [] \<Rightarrow> None
           | Some (actual_position # _) \<Rightarrow>
               (let order_type_dict = [(0, ORDER_TYPE_SELL), (1, ORDER_TYPE_BUY)];
                    position_type = pos_type actual_position
                in case map_of order_type_dict position_type of
                     None \<Rightarrow> None
                   | Some closing_type \<Rightarrow>
                       if \<not> validate_symbol env (pos_symbol actual_position) then None
                       else
                         (case symbol_info_tick env (pos_symbol actual_position) of
                            None \<Rightarrow> None
                          | Some tk \<Rightarrow>
                              (let price = (if position_type = 0 then bid tk else ask tk)
                               in if price = 0 then None
                                  else
                                    (let type_filling =
                                           get_symbol_filling_mode env (pos_symbol actual_position);
                                         request =
                                           \<lparr>rq_action = TRADE_ACTION_DEAL,
                                            rq_position = Some ticket,
                                            rq_symbol = pos_symbol actual_position,
                                            rq_volume = pos_volume actual_position,
                                            rq_type = closing_type,
                                            rq_price = price,
                                            rq_sl = None,
                                            rq_tp = None,
                                            rq_deviation = deviation,
                                            rq_magic = pos_magic actual_position,
                                            rq_comment = cmt,
                                            rq_type_time = ORDER_TIME_GTC,
                                            rq_type_filling = type_filling\<rparr>
                                     in case order_send env request of
                                          None \<Rightarrow> None
                                        | Some order_result \<Rightarrow>
                                            if retcode order_result \<noteq> TRADE_RETCODE_DONE
                                            then None
                                            else Some order_result))))))"

text \<open>
  The view of \<open>POST /close_position\<close>. The body is \<open>None\<close> when it is missing or has
  no key \<open>position\<close>; otherwise it is the value of that key. The defaults of
  \<open>close_position\<close> (deviation 20, magic 0, empty comment) are written out.
\<close>

definition close_position_endpoint ::
    "mt5_env \<Rightarrow> string option \<Rightarrow> (string \<times> int) list option \<Rightarrow> http_response" where
  "close_position_endpoint env request_id body =
     (case body of
        None \<Rightarrow> validation_error_response request_id (Some (Text ''Position data is required'')) None
      | Some pos \<Rightarrow>
          (case close_position env pos 20 0 [] of
             None \<Rightarrow>
               validation_error_response request_id (Some (Text ''Failed to close position'')) None
           | Some result \<Rightarrow>
               if retcode result \<noteq> TRADE_RETCODE_DONE
               then mt5_error_response env request_id ''Close position'' result
               else Response [(''message'', JStr ''Position closed successfully''),
                              (''result'', result_asdict result)] 200))"

section \<open>Sending an order (routes/order.py)\<close>

text \<open>
  The JSON body of \<open>POST /order\<close> by key; \<open>None\<close> is an absent key (for \<open>sl\<close> and
  \<open>tp\<close> also a null value, which \<open>data.get\<close> cannot tell from an absent key). The
  values are taken to have the types the view converts them to.
\<close>

record order_data =
  d_symbol :: "string option"
  d_volume :: "real option"
  d_type :: "string option"
  d_price :: "real option"
  d_sl :: "real option"
  d_tp :: "real option"
  d_deviation :: "int option"
  d_magic :: "int option"
  d_comment :: "string option"
  d_type_filling :: "int option"

definition upper_char :: "char \<Rightarrow> char" where
  "upper_char ch =
     dict_get (zip ''abcdefghijklmnopqrstuvwxyz'' ''ABCDEFGHIJKLMNOPQRSTUVWXYZ'') ch ch"

definition py_upper :: "string \<Rightarrow> string" where
  "py_upper s = map upper_char s"

definition ORDER_TYPE_MAP :: "(string \<times> int) list" where
  "ORDER_TYPE_MAP =
     [(''BUY'', ORDER_TYPE_BUY), (''SELL'', ORDER_TYPE_SELL),
      (''BUY_LIMIT'', ORDER_TYPE_BUY_LIMIT), (''SELL_LIMIT'', ORDER_TYPE_SELL_LIMIT),
      (''BUY_STOP'', ORDER_TYPE_BUY_STOP), (''SELL_STOP'', ORDER_TYPE_SELL_STOP)]"

text \<open>
  Lines 102 to 144 of the view: the action and the entry price of the order, or the
  error response that ends the request.
\<close>

definition resolve_action_price ::
    "mt5_env \<Rightarrow> string option \<Rightarrow> order_data \<Rightarrow> string \<Rightarrow> int \<Rightarrow> http_response + (int \<times> real)" where
  "resolve_action_price env request_id data symbol order_type =
     (if order_type \<in> set [ORDER_TYPE_BUY, ORDER_TYPE_SELL] then
        (case symbol_info_tick env symbol of
           None \<Rightarrow> Inl (validation_error_response request_id (Some (NoSymbolPrice symbol)) None)
         | Some tk \<Rightarrow>
             Inr (TRADE_ACTION_DEAL, if order_type = ORDER_TYPE_BUY then ask tk else bid tk))
      else if order_type \<in> set [ORDER_TYPE_BUY_LIMIT, ORDER_TYPE_SELL_LIMIT,
                                 ORDER_TYPE_BUY_STOP, ORDER_TYPE_SELL_STOP] then
        (case d_price data of
           None \<Rightarrow>
             Inl (validation_error_response request_id
                    (Some (Text ''Price required for pending orders'')) None)
         | Some price \<Rightarrow>
             if price \<le> 0 then
               Inl (validation_error_response request_id
                      (Some (Text ''Price must be positive'')) None)
             else
               (let v = validate_pending_price env order_type symbol price
                in if \<not> fst v then Inl (validation_error_response request_id (snd v) None)
                   else Inr (TRADE_ACTION_PENDING, price)))
      else Inl (validation_error_response request_id (Some (Text ''Invalid order type'')) None))"

text \<open>Lines 167 to 183: the request dictionary.\<close>

definition order_request ::
    "order_data \<Rightarrow> string \<Rightarrow> real \<Rightarrow> int \<Rightarrow> int \<Rightarrow> real \<Rightarrow> trade_request" where
  "order_request data symbol volume order_type action price =
     \<lparr>rq_action = action,
      rq_position = None,
      rq_symbol = symbol,
      rq_volume = volume,
      rq_type = order_type,
      rq_price = price,
      rq_sl = d_sl data,
      rq_tp = d_tp data,
      rq_deviation = (case d_deviation data of None \<Rightarrow> 20 | Some d \<Rightarrow> d),
      rq_magic = (case d_magic data of None \<Rightarrow> 0 | Some m \<Rightarrow> m),
      rq_comment = (case d_comment data of None \<Rightarrow> [] | Some c \<Rightarrow> c),
      rq_type_time = ORDER_TIME_GTC,
      rq_type_filling = (case d_type_filling data of None \<Rightarrow> ORDER_FILLING_IOC | Some f \<Rightarrow> f)\<rparr>"

text \<open>
  Lines 146 to 212: the stop checks, the request and its submission. The second
  component lists the requests handed to \<open>mt5.order_send\<close>.
\<close>

definition submit_order ::
    "mt5_env \<Rightarrow> string option \<Rightarrow> order_data \<Rightarrow> string \<Rightarrow> real \<Rightarrow> int \<Rightarrow> int \<Rightarrow> real
       \<Rightarrow> http_response \<times> trade_request list" where
  "submit_order env request_id data symbol volume order_type action price =
     (let sl = d_sl data; tp = d_tp data;
          v = (if sl \<noteq> None \<or> tp \<noteq> None then validate_sl_tp order_type price sl tp
               else (True, None))
      in if \<not> fst v then (validation_error_response request_id (snd v) None, [])
         else
           (let request_data = order_request data symbol volume order_type action price
            in case order_send env request_data of
                 None \<Rightarrow>
                   (validation_error_response request_id
                      (Some (Text ''Order execution failed - MT5 returned None'')) None,
                    [request_data])
               | Some result \<Rightarrow>
                   if retcode result \<noteq> TRADE_RETCODE_DONE then
                     (mt5_error_response env request_id ''Send order'' result, [request_data])
                   else
                     (let action_str =
                            (if action = TRADE_ACTION_DEAL then ''executed'' else ''placed'')
                      in (Response [(''message'', JStr (''Order '' @ action_str @ '' successfully'')),
                                    (''result'', result_asdict result)] 200,
                          [request_data]))))"

text \<open>
  The view of \<open>POST /order\<close>. The body is \<open>None\<close> when it is missing or empty. An
  exception anywhere in the view ends in \<open>internal_error_response\<close>.
\<close>

definition send_market_order_endpoint ::
    "mt5_env \<Rightarrow> string option \<Rightarrow> order_data option \<Rightarrow> http_response \<times> trade_request list" where
  "send_market_order_endpoint env request_id body =
     (case body of
        None \<Rightarrow>
          (validation_error_response request_id (Some (Text ''Order data is required'')) None, [])
      | Some data \<Rightarrow>
          (case (d_symbol data, d_volume data, d_type data) of
             (Some symbol, Some volume, Some type_str) \<Rightarrow>
               if \<not> validate_symbol env symbol then
                 (validation_error_response request_id (Some (SymbolNotSelectable symbol)) None, [])
               else
                 (case map_of ORDER_TYPE_MAP (py_upper type_str) of
                    None \<Rightarrow>
                      (validation_error_response request_id (Some (InvalidOrderType type_str)) None, [])
                  | Some order_type \<Rightarrow>
                      if volume \<le> 0 then
                        (validation_error_response request_id
                           (Some (Text ''Volume must be positive'')) None, [])
                      else
                        (case validate_volume env symbol volume of
                           Inl e \<Rightarrow> (internal_error_response request_id ''send_order'' e, [])
                         | Inr v \<Rightarrow>
                             if \<not> fst v then
                               (validation_error_response request_id (snd v) None, [])
                             else
                               (case resolve_action_price env request_id data symbol order_type of
                                  Inl response \<Rightarrow> (response, [])
                                | Inr (action, price) \<Rightarrow>
                                    submit_order env request_id data symbol volume
                                      order_type action price)))
           | _ \<Rightarrow>
               (validation_error_response request_id (Some (Text ''Missing required fields''))
                  (Some [(''required'',
                          JObj [(''0'', JStr ''symbol''), (''1'', JStr ''volume''),
                                (''2'', JStr ''type'')])]),
                [])))"

section \<open>Closing part of a position (routes/position.py)\<close>

record partial_close_data =
  pc_ticket :: "int option"
  pc_symbol :: "string option"
  pc_volume :: "real option"
  pc_type :: "int option"
  pc_deviation :: "int option"
  pc_magic :: "int option"
  pc_comment :: "string option"

text \<open>Lines 159 to 171: the request dictionary of the partial close.\<close>

definition partial_close_request ::
    "mt5_env \<Rightarrow> partial_close_data \<Rightarrow> int \<Rightarrow> string \<Rightarrow> real \<Rightarrow> int \<Rightarrow> real \<Rightarrow> trade_request" where
  "partial_close_request env data ticket symbol volume order_type price =
     \<lparr>rq_action = TRADE_ACTION_DEAL,
      rq_position = Some ticket,
      rq_symbol = symbol,
      rq_volume = volume,
      rq_type = order_type,
      rq_price = price,
      rq_sl = None,
      rq_tp = None,
      rq_deviation = (case pc_deviation data of None \<Rightarrow> 20 | Some d \<Rightarrow> d),
      rq_magic = (case pc_magic data of None \<Rightarrow> 0 | Some m \<Rightarrow> m),
      rq_comment = (case pc_comment data of None \<Rightarrow> ''Partial close'' | Some c \<Rightarrow> c),
      rq_type_time = ORDER_TIME_GTC,
      rq_type_filling = get_symbol_filling_mode env symbol\<rparr>"

text \<open>
  The view of \<open>POST /position_close_partial\<close>; the body is \<open>None\<close> when it is missing
  or empty. The second component lists the requests handed to \<open>mt5.order_send\<close>.
\<close>

definition close_position_partial_endpoint ::
    "mt5_env \<Rightarrow> string option \<Rightarrow> partial_close_data option
       \<Rightarrow> http_response \<times> trade_request list" where
  "close_position_partial_endpoint env request_id body =
     (case body of
        None \<Rightarrow>
          (validation_error_response request_id (Some (Text ''Position data is required'')) None, [])
      | Some data \<Rightarrow>
          (case (pc_ticket data, pc_symbol data, pc_volume data, pc_type data) of
             (Some ticket, Some symbol, Some volume, Some position_type) \<Rightarrow>
               if volume \<le> 0 then
                 (validation_error_response request_id
                    (Some (Text ''Volume must be positive'')) None, [])
               else if \<not> validate_symbol env symbol then
                 (validation_error_response request_id (Some (SymbolNotSelectable symbol)) None, [])
               else
                 (case positions_get env ticket of
                    None \<Rightarrow>
                      (validation_error_response request_id (Some (PositionNotFound ticket)) None, [])
                  | Some [] \<Rightarrow>
                      (validation_error_response request_id (Some (PositionNotFound ticket)) None, [])
                  | Some (pos # _) \<Rightarrow>
                      if volume \<ge> pos_volume pos then
                        (validation_error_response request_id
                           (Some (CloseVolumeNotLess volume (pos_volume pos))) None, [])
                      else
                        (case symbol_info_tick env symbol of
                           None \<Rightarrow>
                             (validation_error_response request_id (Some (NoTick symbol)) None, [])
                         | Some tk \<Rightarrow>
                             (case map_of [(0, ORDER_TYPE_SELL), (1, ORDER_TYPE_BUY)] position_type of
                                None \<Rightarrow>
                                  (validation_error_response request_id
                                     (Some (InvalidPositionType position_type)) None, [])
                              | Some order_type \<Rightarrow>
                                  (let price = (if position_type = 0 then bid tk else ask tk);
                                       request_data =
                                         partial_close_request env data ticket symbol volume
                                           order_type price
                                   in case order_send env request_data of
                                        None \<Rightarrow>
                                          (Nested
                                             (validation_error_response request_id
                                                (Some (Text ''Partial close failed - MT5 returned None''))
                                                None) 400,
                                           [request_data])
                                      | Some result \<Rightarrow>
                                          if retcode result \<noteq> TRADE_RETCODE_DONE then
                                            (mt5_error_response env request_id
                                               ''Partial close position'' result,
                                             [request_data])
                                          else
                                            (Response
                                               [(''message'',
                                                 JStr ''Position partially closed successfully''),
                                                (''result'', result_asdict result)] 200,
                                             [request_data])))))
           | _ \<Rightarrow>
               (validation_error_response request_id (Some (Text ''Missing required fields''))
                  (Some [(''required'',
                          JObj [(''0'', JStr ''ticket''), (''1'', JStr ''symbol''),
                                (''2'', JStr ''volume''), (''3'', JStr ''type'')])]),
                [])))"

section \<open>Vocabulary of the properties\<close>


text \<open>
  The schedule of a call of the manager: its login attempts and its waits, in order,
  without the status changes.
\<close>

fun is_status_event :: "event \<Rightarrow> bool" where
  "is_status_event (StatusSet _ _) = True"
| "is_status_event _ = False"

definition schedule :: "event list \<Rightarrow> event list" where
  "schedule evs = filter (\<lambda>e. \<not> is_status_event e) evs"


text \<open>The body and the status code of a response.\<close>

fun body_of :: "http_response \<Rightarrow> envelope" where
  "body_of (Response e _) = e"
| "body_of (Nested r _) = body_of r"

fun status_of :: "http_response \<Rightarrow> int" where
  "status_of (Response _ n) = n"
| "status_of (Nested _ n) = n"

definition error_types :: "string list" where
  "error_types = [''validation_error'', ''mt5_rejected'', ''connection_error'', ''not_found'']"

text \<open>An envelope with an error field and an error type of the documented set.\<close>

definition typed_envelope :: "envelope \<Rightarrow> bool" where
  "typed_envelope e =
     (map_of e ''error'' \<noteq> None \<and>
      (case map_of e ''error_type'' of
         Some (JStr t) \<Rightarrow> t \<in> set error_types
       | _ \<Rightarrow> False))"

section \<open>A terminal and requests to run the model on\<close>

definition demo_info :: symbol_info where
  "demo_info = \<lparr>volume_min = 0.01, volume_max = 100, volume_step = 0.01, point = 0.00001,
                 trade_freeze_level = 10, filling_mode = 4\<rparr>"

definition demo_tick :: tick where
  "demo_tick = \<lparr>bid = 1.0848, ask = 1.0850\<rparr>"

definition demo_position :: position where
  "demo_position = \<lparr>pos_ticket = 7, pos_symbol = ''EURUSD'', pos_type = 0, pos_volume = 1,
                     pos_magic = 0\<rparr>"

text \<open>
  A terminal that knows one symbol and one open position (a buy of one lot, ticket 7)
  and answers every submission with the return code \<open>rc\<close>.
\<close>

definition demo_env :: "int \<Rightarrow> mt5_env" where
  "demo_env rc =
     \<lparr>symbol_select = (\<lambda>s. s = ''EURUSD''),
      symbol_info = (\<lambda>s. if s = ''EURUSD'' then Some demo_info else None),
      symbol_info_tick = (\<lambda>s. if s = ''EURUSD'' then Some demo_tick else None),
      positions_get = (\<lambda>t. if t = 7 then Some [demo_position] else Some []),
      last_error = (1, ''Success''),
      order_send = (\<lambda>r. Some \<lparr>retcode = rc, comment = ''venue''\<rparr>)\<rparr>"



definition failing_venue :: venue where
  "failing_venue =
     \<lparr>login = (\<lambda>k. LoginFailed (- 10003) ''IPC initialize failed''), probe = ProbeNone\<rparr>"

definition healthy_venue :: venue where
  "healthy_venue = \<lparr>login = (\<lambda>k. LoginOk), probe = ProbeData\<rparr>"

definition fresh_connection :: connection where
  "fresh_connection =
     \<lparr>c_status = DISCONNECTED, c_last_error = None, max_reconnect_attempts = 3, base_delay = 1\<rparr>"

definition live_connection :: connection where
  "live_connection =
     \<lparr>c_status = CONNECTED, c_last_error = None, max_reconnect_attempts = 3, base_delay = 1\<rparr>"

text \<open>Two partial-close bodies for ticket 7: one declares the position as a buy, one as a sell.\<close>

definition partial_close_declared_buy :: "real \<Rightarrow> partial_close_data" where
  "partial_close_declared_buy vol =
     \<lparr>pc_ticket = Some 7, pc_symbol = Some ''EURUSD'', pc_volume = Some vol, pc_type = Some 0,
      pc_deviation = None, pc_magic = None, pc_comment = None\<rparr>"

definition partial_close_declared_sell :: "real \<Rightarrow> partial_close_data" where
  "partial_close_declared_sell vol =
     \<lparr>pc_ticket = Some 7, pc_symbol = Some ''EURUSD'', pc_volume = Some vol, pc_type = Some 1,
      pc_deviation = None, pc_magic = None, pc_comment = None\<rparr>"

lemmas eval_defs =
  send_market_order_endpoint_def submit_order_def resolve_action_price_def order_request_def
  validate_symbol_def validate_volume_def validate_sl_tp_def validate_pending_price_def
  py_truediv_def py_round_def py_upper_def upper_char_def dict_get_def
  ORDER_TYPE_MAP_def ORDER_TYPE_TO_STRING_def get_symbol_filling_mode_def
  demo_env_def demo_info_def demo_tick_def demo_position_def Let_def mt5_consts
  sublist_Cons_right

declare initialize_loop.simps [simp del]

section \<open>Volume validation\<close>









lemma validate_volume_never_raises: "validate_volume env s v \<noteq> Inl e"
  by (simp add: validate_volume_def py_truediv_def Let_def split: option.splits)



text \<open>
  C10. For a symbol whose volume step is zero or negative, \<open>validate_volume\<close> checks
  the minimum and the maximum only: every volume between them is accepted, and the
  division by the step, guarded by \<open>volume_step > 0\<close>, is not reached, so it cannot
  raise.
\<close>

theorem validate_volume_nonpositive_step:
  assumes "symbol_info env s = Some si" and "volume_step si \<le> 0"
  shows "validate_volume env s v =
           (if v < volume_min si then Inr (False, Some (VolumeBelowMinimum v (volume_min si)))
            else if volume_max si < v then Inr (False, Some (VolumeExceedsMaximum v (volume_max si)))
            else Inr (True, None))
         \<and> validate_volume env s v \<noteq> Inl ZeroDivisionError"
  using assms by (simp add: validate_volume_def)

theorem validate_volume_nonpositive_step_witness:
  "symbol_info (demo_env 10009\<lparr>symbol_info := (\<lambda>s. Some (demo_info\<lparr>volume_step := 0\<rparr>))\<rparr>) ''EURUSD''
     = Some (demo_info\<lparr>volume_step := 0\<rparr>)
   \<and> volume_step (demo_info\<lparr>volume_step := 0\<rparr>) \<le> 0
   \<and> validate_volume (demo_env 10009\<lparr>symbol_info := (\<lambda>s. Some (demo_info\<lparr>volume_step := 0\<rparr>))\<rparr>)
        ''EURUSD'' 0.123 = Inr (True, None)"
proof -
  let ?env = "demo_env 10009\<lparr>symbol_info := (\<lambda>s. Some (demo_info\<lparr>volume_step := 0\<rparr>))\<rparr>"
  have info: "symbol_info ?env ''EURUSD'' = Some (demo_info\<lparr>volume_step := 0\<rparr>)"
    by simp
  have step: "volume_step (demo_info\<lparr>volume_step := 0\<rparr>) \<le> 0"
    by simp
  show ?thesis
    using validate_volume_nonpositive_step [OF info step, of "0.123"] info step
    by (simp add: demo_info_def)
qed

section \<open>The connection lifecycle\<close>

lemma schedule_Nil [simp]: "schedule [] = []"
  by (simp add: schedule_def)

lemma schedule_Cons [simp]:
  "schedule (e # evs) = (if is_status_event e then schedule evs else e # schedule evs)"
  by (simp add: schedule_def)

lemma schedule_append [simp]: "schedule (xs @ ys) = schedule xs @ schedule ys"
  by (simp add: schedule_def)

lemma schedule_begin_events [simp]: "schedule (begin_events c k) = []"
  by (simp add: begin_events_def)






text \<open>The whole run of that call, status changes included.\<close>

lemma initialize_failing_run:
  "initialize failing_venue fresh_connection =
     (False,
      fresh_connection\<lparr>c_status := DISCONNECTED, c_last_error := Some (FailedAfterAttempts 3)\<rparr>,
      [LoginCall 1,
       StatusSet DISCONNECTED (Some (InitializationFailed ''IPC initialize failed'' (- 10003))),
       Slept 1,
       StatusSet RECONNECTING (Some (ReconnectionAttempt 2 3)),
       LoginCall 2,
       StatusSet DISCONNECTED (Some (InitializationFailed ''IPC initialize failed'' (- 10003))),
       Slept 2,
       StatusSet RECONNECTING (Some (ReconnectionAttempt 3 3)),
       LoginCall 3,
       StatusSet DISCONNECTED (Some (InitializationFailed ''IPC initialize failed'' (- 10003))),
       StatusSet DISCONNECTED (Some (FailedAfterAttempts 3))])"
  by (simp add: initialize_def initialize_loop.simps failing_venue_def fresh_connection_def
        Let_def begin_attempt_def begin_events_def backoff_def set_status_def)

text \<open>
  C7. With the state Connected and a liveness probe that returns data,
  \<open>ensure_connection\<close> returns success, leaves the manager (state and last error) as
  it was and has no effect at all: no status change, no wait, no login attempt. With
  the state Connected and a probe that returns nothing or raises, it sets the state to
  Disconnected with a diagnostic and continues with \<open>initialize\<close> from there. With any
  other state it is \<open>initialize\<close>.
\<close>

theorem ensure_connection_cases:
  "(c_status c = CONNECTED \<and> probe v = ProbeData \<longrightarrow>
      ensure_connection v c = (True, c, []))
 \<and> (c_status c = CONNECTED \<and> probe v = ProbeNone \<longrightarrow>
      ensure_connection v c =
        (fst (initialize v (set_status c DISCONNECTED (Some ConnectionLost))),
         fst (snd (initialize v (set_status c DISCONNECTED (Some ConnectionLost)))),
         StatusSet DISCONNECTED (Some ConnectionLost)
           # snd (snd (initialize v (set_status c DISCONNECTED (Some ConnectionLost))))))
 \<and> (\<forall>e. c_status c = CONNECTED \<and> probe v = ProbeRaised e \<longrightarrow>
      ensure_connection v c =
        (fst (initialize v (set_status c DISCONNECTED (Some (CheckFailed e)))),
         fst (snd (initialize v (set_status c DISCONNECTED (Some (CheckFailed e))))),
         StatusSet DISCONNECTED (Some (CheckFailed e))
           # snd (snd (initialize v (set_status c DISCONNECTED (Some (CheckFailed e)))))))
 \<and> (c_status c \<noteq> CONNECTED \<longrightarrow> ensure_connection v c = initialize v c)"
  by (simp add: ensure_connection_def is_connected_def Let_def)

theorem ensure_connection_cases_witness:
  "c_status live_connection = CONNECTED \<and> probe healthy_venue = ProbeData
   \<and> ensure_connection healthy_venue live_connection = (True, live_connection, [])
   \<and> probe failing_venue = ProbeNone
   \<and> ensure_connection failing_venue live_connection =
       (False,
        live_connection\<lparr>c_status := DISCONNECTED, c_last_error := Some (FailedAfterAttempts 3)\<rparr>,
        StatusSet DISCONNECTED (Some ConnectionLost) #
        snd (snd (initialize failing_venue fresh_connection)))
   \<and> c_status fresh_connection \<noteq> CONNECTED
   \<and> ensure_connection healthy_venue fresh_connection =
       (True, fresh_connection\<lparr>c_status := CONNECTED\<rparr>, [LoginCall 1, StatusSet CONNECTED None])"
proof -
  have live: "c_status live_connection = CONNECTED"
    by (simp add: live_connection_def)
  have fresh: "c_status fresh_connection \<noteq> CONNECTED"
    by (simp add: fresh_connection_def)
  have lost: "set_status live_connection DISCONNECTED (Some ConnectionLost) =
              fresh_connection\<lparr>c_last_error := Some ConnectionLost\<rparr>"
    by (simp add: set_status_def live_connection_def fresh_connection_def)
  have run_lost: "initialize failing_venue (fresh_connection\<lparr>c_last_error := Some ConnectionLost\<rparr>) =
     (False,
      live_connection\<lparr>c_status := DISCONNECTED, c_last_error := Some (FailedAfterAttempts 3)\<rparr>,
      snd (snd (initialize failing_venue fresh_connection)))"
    by (simp add: initialize_def initialize_loop.simps failing_venue_def fresh_connection_def
          live_connection_def Let_def begin_attempt_def begin_events_def backoff_def set_status_def)
  have run_ok: "initialize healthy_venue fresh_connection =
       (True, fresh_connection\<lparr>c_status := CONNECTED\<rparr>, [LoginCall 1, StatusSet CONNECTED None])"
    by (simp add: initialize_def initialize_loop.simps healthy_venue_def fresh_connection_def
          Let_def begin_attempt_def begin_events_def set_status_def)
  have p1: "probe healthy_venue = ProbeData" and p2: "probe failing_venue = ProbeNone"
    by (simp_all add: healthy_venue_def failing_venue_def)
  show ?thesis
    using ensure_connection_cases [of live_connection healthy_venue]
      ensure_connection_cases [of live_connection failing_venue]
      ensure_connection_cases [of fresh_connection healthy_venue]
      live fresh p1 p2
    by (simp add: lost run_lost run_ok)
qed

section \<open>Stops and pending prices\<close>





section \<open>The order pipeline\<close>








section \<open>Classification of venue results\<close>

lemma close_position_done:
  assumes "close_position env pos deviation magic cmt = Some r"
  shows "retcode r = TRADE_RETCODE_DONE"
  using assms
  by (auto simp: close_position_def Let_def split: option.splits list.splits if_splits)

lemma close_position_endpoint_status:
  "status_of (close_position_endpoint env rid body) = 200 \<or>
   status_of (close_position_endpoint env rid body) = 400"
proof (cases body)
  case None
  then show ?thesis
    by (simp add: close_position_endpoint_def validation_error_response_def Let_def)
next
  case (Some pos)
  show ?thesis
  proof (cases "close_position env pos 20 0 []")
    case None
    with Some show ?thesis
      by (simp add: close_position_endpoint_def validation_error_response_def Let_def)
  next
    case (Some r)
    with close_position_done [OF Some] \<open>body = Some pos\<close> show ?thesis
      by (simp add: close_position_endpoint_def)
  qed
qed

text \<open>
  C2 on the close path. The terminal answers the closing deal of position 7 with the
  return code 10018, one of the codes that \<open>mt5_error_response\<close> classifies as a
  connection error with status 503. \<open>close_position\<close> of lib.py turns every result
  whose return code is not DONE into \<open>None\<close>, so the view answers with the status
  400 and the type \<open>validation_error\<close>, and its call of \<open>mt5_error_response\<close> is
  never reached: whatever the terminal answers, the status of the close view is 200
  or 400.
\<close>

theorem close_position_endpoint_unclassified:
  "close_position_endpoint (demo_env 10018) None (Some [(''ticket'', 7)]) =
     Response [(''error'', JMsg (Text ''Failed to close position'')),
               (''error_type'', JStr ''validation_error'')] 400
   \<and> mt5_error_response (demo_env 10018) None ''Close position''
        \<lparr>retcode = 10018, comment = ''venue''\<rparr> =
     Response [(''error'', JMsg (OperationFailed ''Close position'' ''venue'')),
               (''error_type'', JStr ''connection_error''),
               (''mt5_error'',
                  JObj [(''retcode'', JInt 10018), (''comment'', JStr ''venue''),
                        (''error_code'', JInt 1), (''error_string'', JStr ''Success'')])] 503
   \<and> (status_of (close_position_endpoint env rid body) = 200 \<or>
      status_of (close_position_endpoint env rid body) = 400)"
proof (intro conjI)
  show "close_position_endpoint (demo_env 10018) None (Some [(''ticket'', 7)]) =
     Response [(''error'', JMsg (Text ''Failed to close position'')),
               (''error_type'', JStr ''validation_error'')] 400"
    by (simp add: close_position_endpoint_def close_position_def validation_error_response_def
          add_request_id_def truthy_str_def truthy_dict_def opt_msg_def eval_defs)
  show "mt5_error_response (demo_env 10018) None ''Close position''
        \<lparr>retcode = 10018, comment = ''venue''\<rparr> =
     Response [(''error'', JMsg (OperationFailed ''Close position'' ''venue'')),
               (''error_type'', JStr ''connection_error''),
               (''mt5_error'',
                  JObj [(''retcode'', JInt 10018), (''comment'', JStr ''venue''),
                        (''error_code'', JInt 1), (''error_string'', JStr ''Success'')])] 503"
    by (simp add: mt5_error_response_def add_request_id_def truthy_str_def demo_env_def Let_def)
  show "status_of (close_position_endpoint env rid body) = 200 \<or>
      status_of (close_position_endpoint env rid body) = 400"
    by (rule close_position_endpoint_status)
qed

section \<open>Error envelopes\<close>

lemma typed_validation:
  "typed_envelope (body_of (validation_error_response rid msg details))"
  "map_of (body_of (validation_error_response rid msg details)) ''error_type'' =
     Some (JStr ''validation_error'')"
  by (simp_all add: validation_error_response_def typed_envelope_def add_request_id_def
        error_types_def Let_def)







section \<open>Partial close\<close>

lemmas partial_close_defs =
  close_position_partial_endpoint_def partial_close_request_def validation_error_response_def
  add_request_id_def truthy_str_def truthy_dict_def opt_msg_def

text \<open>
  C9, as the code has it. Let the body carry ticket, symbol, volume and type, and let
  the terminal return the live position for the ticket. A volume greater than or equal
  to the position's volume is answered with a validation error of status 400 and no
  request is submitted; when the volume is positive and the symbol selectable, the
  message is the one that names both volumes and points to the full close. A positive
  volume strictly below the position's, with a selectable symbol, a tick and a
  declared type of 0 or 1, is submitted once, as a deal on the ticket for that volume:
  a Sell at the bid when the body declares type 0, a Buy at the ask when it declares
  type 1. The direction and the price side come from the body's type, which is not
  compared with the live position's.
\<close>

theorem partial_close_volume_rule:
  assumes "pc_ticket data = Some ticket" and "pc_symbol data = Some symbol"
    and "pc_volume data = Some volume" and "pc_type data = Some position_type"
    and "positions_get env ticket = Some (pos # rest)"
  shows "(pos_volume pos \<le> volume \<longrightarrow>
            snd (close_position_partial_endpoint env rid (Some data)) = []
          \<and> status_of (fst (close_position_partial_endpoint env rid (Some data))) = 400
          \<and> map_of (body_of (fst (close_position_partial_endpoint env rid (Some data))))
               ''error_type'' = Some (JStr ''validation_error''))
       \<and> (pos_volume pos \<le> volume \<and> 0 < volume \<and> validate_symbol env symbol \<longrightarrow>
            fst (close_position_partial_endpoint env rid (Some data)) =
              validation_error_response rid
                (Some (CloseVolumeNotLess volume (pos_volume pos))) None)
       \<and> (volume < pos_volume pos \<and> 0 < volume \<and> validate_symbol env symbol
            \<and> symbol_info_tick env symbol = Some tk \<and> position_type \<in> {0, 1} \<longrightarrow>
            snd (close_position_partial_endpoint env rid (Some data)) =
              [\<lparr>rq_action = TRADE_ACTION_DEAL,
                rq_position = Some ticket,
                rq_symbol = symbol,
                rq_volume = volume,
                rq_type = (if position_type = 0 then ORDER_TYPE_SELL else ORDER_TYPE_BUY),
                rq_price = (if position_type = 0 then bid tk else ask tk),
                rq_sl = None,
                rq_tp = None,
                rq_deviation = (case pc_deviation data of None \<Rightarrow> 20 | Some d \<Rightarrow> d),
                rq_magic = (case pc_magic data of None \<Rightarrow> 0 | Some m \<Rightarrow> m),
                rq_comment = (case pc_comment data of None \<Rightarrow> ''Partial close'' | Some c \<Rightarrow> c),
                rq_type_time = ORDER_TIME_GTC,
                rq_type_filling = get_symbol_filling_mode env symbol\<rparr>])"
proof (intro conjI impI)
  assume big: "pos_volume pos \<le> volume"
  have "close_position_partial_endpoint env rid (Some data) =
          (validation_error_response rid
             (Some (if volume \<le> 0 then Text ''Volume must be positive''
                    else if \<not> validate_symbol env symbol then SymbolNotSelectable symbol
                    else CloseVolumeNotLess volume (pos_volume pos))) None, [])"
    using assms big by (simp add: close_position_partial_endpoint_def)
  then show "snd (close_position_partial_endpoint env rid (Some data)) = []"
    and "status_of (fst (close_position_partial_endpoint env rid (Some data))) = 400"
    and "map_of (body_of (fst (close_position_partial_endpoint env rid (Some data))))
               ''error_type'' = Some (JStr ''validation_error'')"
    using typed_validation(2) by (simp_all add: validation_error_response_def Let_def)
next
  assume "pos_volume pos \<le> volume \<and> 0 < volume \<and> validate_symbol env symbol"
  then show "fst (close_position_partial_endpoint env rid (Some data)) =
              validation_error_response rid
                (Some (CloseVolumeNotLess volume (pos_volume pos))) None"
    using assms by (simp add: close_position_partial_endpoint_def)
next
  assume h: "volume < pos_volume pos \<and> 0 < volume \<and> validate_symbol env symbol
            \<and> symbol_info_tick env symbol = Some tk \<and> position_type \<in> {0, 1}"
  let ?order_type = "if position_type = 0 then ORDER_TYPE_SELL else ORDER_TYPE_BUY"
  let ?price = "if position_type = 0 then bid tk else ask tk"
  let ?req = "partial_close_request env data ticket symbol volume ?order_type ?price"
  from h have pt: "position_type = 0 \<or> position_type = 1" by simp
  have dict: "map_of [(0, ORDER_TYPE_SELL), (1, ORDER_TYPE_BUY)] position_type = Some ?order_type"
    using pt by auto
  have stage: "close_position_partial_endpoint env rid (Some data) =
      (case order_send env ?req of
         None \<Rightarrow>
           (Nested (validation_error_response rid
                      (Some (Text ''Partial close failed - MT5 returned None'')) None) 400,
            [?req])
       | Some result \<Rightarrow>
           if retcode result \<noteq> TRADE_RETCODE_DONE then
             (mt5_error_response env rid ''Partial close position'' result, [?req])
           else
             (Response [(''message'', JStr ''Position partially closed successfully''),
                        (''result'', result_asdict result)] 200,
              [?req]))"
    using assms h dict
    by (simp add: close_position_partial_endpoint_def Let_def del: map_of.simps)
  have "snd (close_position_partial_endpoint env rid (Some data)) = [?req]"
    unfolding stage by (cases "order_send env ?req") simp_all
  then show "snd (close_position_partial_endpoint env rid (Some data)) =
              [\<lparr>rq_action = TRADE_ACTION_DEAL,
                rq_position = Some ticket,
                rq_symbol = symbol,
                rq_volume = volume,
                rq_type = (if position_type = 0 then ORDER_TYPE_SELL else ORDER_TYPE_BUY),
                rq_price = (if position_type = 0 then bid tk else ask tk),
                rq_sl = None,
                rq_tp = None,
                rq_deviation = (case pc_deviation data of None \<Rightarrow> 20 | Some d \<Rightarrow> d),
                rq_magic = (case pc_magic data of None \<Rightarrow> 0 | Some m \<Rightarrow> m),
                rq_comment = (case pc_comment data of None \<Rightarrow> ''Partial close'' | Some c \<Rightarrow> c),
                rq_type_time = ORDER_TIME_GTC,
                rq_type_filling = get_symbol_filling_mode env symbol\<rparr>]"
    by (simp add: partial_close_request_def)
qed

theorem partial_close_volume_rule_witness:
  "positions_get (demo_env 10009) 7 = Some (demo_position # [])
   \<and> pos_volume demo_position \<le> 1
   \<and> close_position_partial_endpoint (demo_env 10009) None (Some (partial_close_declared_buy 1)) =
       (Response [(''error'', JMsg (CloseVolumeNotLess 1 1)),
                  (''error_type'', JStr ''validation_error'')] 400, [])
   \<and> 0.4 < pos_volume demo_position
   \<and> map (\<lambda>r. (rq_type r, rq_price r, rq_volume r, rq_position r))
        (snd (close_position_partial_endpoint (demo_env 10009) None
                (Some (partial_close_declared_buy 0.4)))) =
       [(ORDER_TYPE_SELL, 1.0848, 0.4, Some 7)]"
proof -
  have pos: "positions_get (demo_env 10009) 7 = Some (demo_position # [])"
    by (simp add: demo_env_def)
  have tk: "symbol_info_tick (demo_env 10009) ''EURUSD'' = Some demo_tick"
    by (simp add: demo_env_def)
  have sel: "validate_symbol (demo_env 10009) ''EURUSD''"
    by (simp add: validate_symbol_def demo_env_def)
  have vol: "pos_volume demo_position = 1"
    by (simp add: demo_position_def)
  have full: "fst (close_position_partial_endpoint (demo_env 10009) None
                     (Some (partial_close_declared_buy 1))) =
                validation_error_response None (Some (CloseVolumeNotLess 1 (pos_volume demo_position))) None
              \<and> snd (close_position_partial_endpoint (demo_env 10009) None
                     (Some (partial_close_declared_buy 1))) = []"
    using partial_close_volume_rule
            [of "partial_close_declared_buy 1" 7 "''EURUSD''" 1 0 "demo_env 10009"
                demo_position "[]" None demo_tick, OF _ _ _ _ pos]
      sel vol
    by (simp add: partial_close_declared_buy_def)
  have part: "snd (close_position_partial_endpoint (demo_env 10009) None
                     (Some (partial_close_declared_buy 0.4))) =
              [\<lparr>rq_action = TRADE_ACTION_DEAL, rq_position = Some 7, rq_symbol = ''EURUSD'',
                rq_volume = 0.4, rq_type = ORDER_TYPE_SELL, rq_price = bid demo_tick,
                rq_sl = None, rq_tp = None, rq_deviation = 20, rq_magic = 0,
                rq_comment = ''Partial close'', rq_type_time = ORDER_TIME_GTC,
                rq_type_filling = get_symbol_filling_mode (demo_env 10009) ''EURUSD''\<rparr>]"
    using partial_close_volume_rule
            [of "partial_close_declared_buy 0.4" 7 "''EURUSD''" "0.4" 0 "demo_env 10009"
                demo_position "[]" None demo_tick, OF _ _ _ _ pos]
      sel vol tk
    by (simp add: partial_close_declared_buy_def)
  from full have full': "close_position_partial_endpoint (demo_env 10009) None
                     (Some (partial_close_declared_buy 1)) =
       (Response [(''error'', JMsg (CloseVolumeNotLess 1 1)),
                  (''error_type'', JStr ''validation_error'')] 400, [])"
    by (simp add: prod_eq_iff vol validation_error_response_def add_request_id_def
          truthy_str_def truthy_dict_def opt_msg_def)
  show ?thesis
    using pos vol full' part by (simp add: demo_tick_def)
qed

text \<open>
  C9 as stated fails. Position 7 is a buy of one lot. A body that asks to close 0.4 of
  it and declares it as a sell (type 1) is submitted as a Buy at the ask, in the
  position's own direction, not as the opposite deal at the bid.
\<close>

theorem partial_close_direction_counterexample:
  "positions_get (demo_env 10009) 7 = Some [demo_position]
   \<and> pos_type demo_position = ORDER_TYPE_BUY
   \<and> 0.4 < pos_volume demo_position
   \<and> map (\<lambda>r. (rq_type r, rq_price r, rq_volume r, rq_position r))
        (snd (close_position_partial_endpoint (demo_env 10009) None
                (Some (partial_close_declared_sell 0.4)))) =
       [(ORDER_TYPE_BUY, ask demo_tick, 0.4, Some 7)]
   \<and> ORDER_TYPE_BUY \<noteq> ORDER_TYPE_SELL
   \<and> ask demo_tick \<noteq> bid demo_tick"
  by (simp add: partial_close_defs partial_close_declared_sell_def eval_defs)

end
